theory Spec2Isabelle
  imports Main "HOL-Library.Word"
begin

section \<open>kube-shedder: the admission gate, its counter and its probes\<close>

text \<open>
  The package keeps one signed 64-bit counter of in-flight requests (\<open>atomic.Int64\<close>),
  compares it with two configured limits and wraps a downstream \<open>http.Handler\<close>.
  The embedding below follows the Go source function by function.

  \<^item> \<open>int64\<close> is a 64-bit word; \<open>+\<close> and \<open>-\<close> wrap as Go's do, and every comparison of
    the source is the signed one (\<open><s\<close>, \<open>\<le>s\<close>).
  \<^item> The \<open>*Shedder\<close> is a record that is passed in and returned updated.
  \<^item> A panic is a value: \<open>New\<close> returns \<open>Inl\<close> of the panic message, and a downstream
    handler returns an \<open>outcome\<close>.
  \<^item> What a request's handling does to its collaborators is a list of events in program
    order: the notifier call, the downstream call, and the calls on the
    \<open>http.ResponseWriter\<close>.
\<close>

subsection \<open>Requests and headers (net/http)\<close>

type_synonym int64 = "64 word"

text \<open>\<open>http.Header\<close> is \<open>map[string][]string\<close>.\<close>

type_synonym Header = "string \<rightharpoonup> string list"

definition isLower :: "char \<Rightarrow> bool" where
  "isLower c = (97 \<le> (of_char c :: nat) \<and> (of_char c :: nat) \<le> 122)"

definition isUpper :: "char \<Rightarrow> bool" where
  "isUpper c = (65 \<le> (of_char c :: nat) \<and> (of_char c :: nat) \<le> 90)"

definition isDigit :: "char \<Rightarrow> bool" where
  "isDigit c = (48 \<le> (of_char c :: nat) \<and> (of_char c :: nat) \<le> 57)"

text \<open>
  The token bytes of RFC 7230, as \<open>net/textproto\<close> tests them: letters, digits and
  \<open>! # $ % & ' * + - . ^ _ ` | ~\<close>.
\<close>

definition validHeaderFieldByte :: "char \<Rightarrow> bool" where
  "validHeaderFieldByte c =
     (isLower c \<or> isUpper c \<or> isDigit c \<or>
      List.member [CHR 0x21, CHR 0x23, CHR 0x24, CHR 0x25, CHR 0x26, CHR 0x27, CHR 0x2A,
                   CHR 0x2B, CHR 0x2D, CHR 0x2E, CHR 0x5E, CHR 0x5F, CHR 0x60, CHR 0x7C,
                   CHR 0x7E] c)"

text \<open>
  The case rule of \<open>textproto.CanonicalMIMEHeaderKey\<close>: the first letter and every letter
  after a hyphen in upper case, every other letter in lower case.
\<close>

fun canonicalCase :: "bool \<Rightarrow> string \<Rightarrow> string" where
  "canonicalCase upper [] = []"
| "canonicalCase upper (c # cs) =
     (let c' = (if upper \<and> isLower c then char_of ((of_char c :: nat) - 32)
                else if \<not> upper \<and> isUpper c then char_of ((of_char c :: nat) + 32)
                else c)
      in c' # canonicalCase (c' = CHR 0x2D) cs)"

text \<open>A key with a space or any other byte that is no token byte is returned as it is.\<close>

definition CanonicalMIMEHeaderKey :: "string \<Rightarrow> string" where
  "CanonicalMIMEHeaderKey s =
     (if list_all validHeaderFieldByte s then canonicalCase True s else s)"

text \<open>
  \<open>Header.Get\<close>: the first value stored under the canonical form of the key, and the
  empty string when the key is absent or its value list is empty.
\<close>

definition Header_Get :: "Header \<Rightarrow> string \<Rightarrow> string" where
  "Header_Get h key =
     (case h (CanonicalMIMEHeaderKey key) of
        None \<Rightarrow> []
      | Some [] \<Rightarrow> []
      | Some (v # _) \<Rightarrow> v)"

text \<open>The part of \<open>*http.Request\<close> that the package and its callbacks read.\<close>

record Request =
  Path :: string
  Header :: Header

subsection \<open>Configuration, shed reasons and the Shedder\<close>

type_synonym ShedDecider = "Request \<Rightarrow> bool"

record HeaderMatcher =
  Name :: string
  Value :: string

text \<open>\<open>type ShedReason int\<close>, with the two constants numbered by \<open>iota\<close>.\<close>

type_synonym ShedReason = int

definition ShedReasonHardLimit :: ShedReason where
  "ShedReasonHardLimit = 0"

definition ShedReasonSoftLimit :: ShedReason where
  "ShedReasonSoftLimit = 1"

definition String :: "ShedReason \<Rightarrow> string" where
  "String r =
     (if r = ShedReasonHardLimit then ''hard_limit''
      else if r = ShedReasonSoftLimit then ''soft_limit''
      else ''unknown'')"

text \<open>
  \<open>OnShed\<close> is a callback without a result; a call of it is the event \<open>CallOnShed\<close> below.
  A nil function or pointer is \<open>None\<close>. The decider is taken as a pure predicate on
  the request and the notifier as a call that returns; of the three callbacks only the
  downstream handler is given a panic, the case that the source's comments and tests name.
\<close>

type_synonym Notifier = "Request \<Rightarrow> ShedReason \<Rightarrow> unit"

record Config =
  HardLimit :: int64
  SoftLimit :: int64
  ShedDecider :: "ShedDecider option"
  ShedHeader :: "HeaderMatcher option"
  OnShed :: "Notifier option"

record Shedder =
  hardLimit :: int64
  softLimit :: int64
  inflight :: int64
  shedDecider :: "ShedDecider option"
  onShed :: "Notifier option"

text \<open>
  \<open>New\<close> panics on a hard limit that is not positive (\<open>Inl\<close> of the message). Otherwise
  the counter starts at zero, and the decider is the configured one, or else the closure
  built from the header matcher, or else nil.
\<close>

definition New :: "Config \<Rightarrow> string + Shedder" where
  "New cfg =
     (if HardLimit cfg \<le>s 0 then Inl ''shedder: HardLimit must be > 0''
      else Inr \<lparr> hardLimit = HardLimit cfg,
                 softLimit = SoftLimit cfg,
                 inflight = 0,
                 shedDecider =
                   (case ShedDecider cfg of
                      Some d \<Rightarrow> Some d
                    | None \<Rightarrow>
                        (case ShedHeader cfg of
                           Some hm \<Rightarrow> Some (\<lambda>r. Header_Get (Header r) (Name hm) = Value hm)
                         | None \<Rightarrow> None)),
                 onShed = OnShed cfg \<rparr>)"

definition NewWithLimits :: "int64 \<Rightarrow> int64 \<Rightarrow> string + Shedder" where
  "NewWithLimits hl sl =
     New \<lparr> HardLimit = hl, SoftLimit = sl, ShedDecider = None, ShedHeader = None,
           OnShed = None \<rparr>"

definition Inflight :: "Shedder \<Rightarrow> int64" where
  "Inflight s = inflight s"

definition IsOverloaded :: "Shedder \<Rightarrow> bool" where
  "IsOverloaded s = (hardLimit s <s inflight s)"

definition IsSoftOverloaded :: "Shedder \<Rightarrow> bool" where
  "IsSoftOverloaded s =
     (if softLimit s \<le>s 0 then False
      else softLimit s <s inflight s \<and> inflight s \<le>s hardLimit s)"

text \<open>\<open>increment\<close> returns the new value together with the updated Shedder.\<close>

definition increment :: "Shedder \<Rightarrow> int64 \<times> Shedder" where
  "increment s = (inflight s + 1, s\<lparr>inflight := inflight s + 1\<rparr>)"

definition decrement :: "Shedder \<Rightarrow> Shedder" where
  "decrement s = s\<lparr>inflight := inflight s + (- 1)\<rparr>"

subsection \<open>Effects: outcomes, writer calls and events\<close>

text \<open>A call either returns or panics with a value.\<close>

datatype outcome = Returned | Panicked string

text \<open>
  \<open>http.ResponseWriter\<close> is an interface; what a handler does with it is the list of
  the calls it makes: \<open>w.Header().Set(k, v)\<close>, \<open>w.Header().Del(k)\<close>,
  \<open>w.WriteHeader(code)\<close> and \<open>w.Write(bytes)\<close>.
\<close>

datatype wcall =
    HeaderSet string string
  | HeaderDel string
  | WriteHeader nat
  | Write string

text \<open>
  A downstream \<open>http.Handler\<close>: for a request, the calls it makes on the writer and how
  it ends.
\<close>

type_synonym Handler = "Request \<Rightarrow> wcall list \<times> outcome"

text \<open>
  The events of one request, in program order: \<open>s.onShed(r, reason)\<close>,
  \<open>next.ServeHTTP(w, r)\<close>, and a call on the writer.
\<close>

datatype event =
    CallOnShed Request ShedReason
  | CallNext Request
  | OnWriter wcall

text \<open>
  \<open>http.Error\<close> of net/http: it drops Content-Length, sets the plain-text content type
  and the nosniff option, writes the status code and then the message and a newline.
\<close>

definition http_Error :: "string \<Rightarrow> nat \<Rightarrow> wcall list" where
  "http_Error msg code =
     [HeaderDel ''Content-Length'',
      HeaderSet ''Content-Type'' ''text/plain; charset=utf-8'',
      HeaderSet ''X-Content-Type-Options'' ''nosniff'',
      WriteHeader code,
      Write (msg @ [CHR 0x0A])]"

definition StatusOK :: nat where
  "StatusOK = 200"

definition StatusServiceUnavailable :: nat where
  "StatusServiceUnavailable = 503"

subsection \<open>The middleware\<close>

definition shed :: "Shedder \<Rightarrow> Request \<Rightarrow> ShedReason \<Rightarrow> event list" where
  "shed s r reason =
     (case onShed s of
        Some f \<Rightarrow> (case f r reason of () \<Rightarrow> [CallOnShed r reason])
      | None \<Rightarrow> []) @
     map OnWriter
       ([HeaderSet ''Retry-After'' ''1'',
         HeaderSet ''X-Shed-Reason'' (String reason)] @
        http_Error ''Service Unavailable: load shedding active'' StatusServiceUnavailable)"

text \<open>
  The handler that \<open>Middleware\<close> returns, applied to one request. The deferred
  \<open>s.decrement()\<close> runs when the closure returns and when \<open>next\<close> panics, so the
  Shedder that comes back is the decremented one in every branch; a panic of \<open>next\<close>
  goes on to the caller as the outcome.
\<close>

definition Middleware :: "Shedder \<Rightarrow> Handler \<Rightarrow> Request \<Rightarrow> Shedder \<times> event list \<times> outcome" where
  "Middleware s next r =
     (let (current, s1) = increment s;
          serve = (CallNext r # map OnWriter (fst (next r)), snd (next r));
          (evs, out) =
            (if hardLimit s1 <s current then (shed s1 r ShedReasonHardLimit, Returned)
             else if 0 <s softLimit s1 \<and> softLimit s1 <s current then
               (if (case shedDecider s1 of None \<Rightarrow> False | Some d \<Rightarrow> d r)
                then (shed s1 r ShedReasonSoftLimit, Returned)
                else serve)
             else serve)
      in (decrement s1, evs, out))"

definition MiddlewareFunc :: "Shedder \<Rightarrow> Handler \<Rightarrow> Request \<Rightarrow> Shedder \<times> event list \<times> outcome" where
  "MiddlewareFunc s = (\<lambda>next. Middleware s next)"

subsection \<open>The probes\<close>

text \<open>The verb \<open>%d\<close> of \<open>fmt\<close> on a signed integer: decimal digits, with a minus sign.\<close>

fun decimal :: "nat \<Rightarrow> string" where
  "decimal n =
     (if n < 10 then [char_of (48 + n)]
      else decimal (n div 10) @ [char_of (48 + n mod 10)])"

declare decimal.simps [simp del]

definition fmt_d :: "int64 \<Rightarrow> string" where
  "fmt_d x = (if sint x < 0 then CHR 0x2D # decimal (nat (- sint x)) else decimal (nat (sint x)))"

definition ReadyHandler :: "Shedder \<Rightarrow> Handler" where
  "ReadyHandler s = (\<lambda>r.
     (let n = Inflight s in
      if hardLimit s <s n then
        ([HeaderSet ''Content-Type'' ''text/plain; charset=utf-8'',
          WriteHeader StatusServiceUnavailable,
          Write (''not ready: inflight='' @ fmt_d n @ '', hardLimit='' @ fmt_d (hardLimit s))],
         Returned)
      else
        ([HeaderSet ''Content-Type'' ''text/plain; charset=utf-8'',
          WriteHeader StatusOK,
          Write (''ready: inflight='' @ fmt_d n @ '', hardLimit='' @ fmt_d (hardLimit s))],
         Returned)))"

definition ReadyHandlerFunc :: "Shedder \<Rightarrow> Handler" where
  "ReadyHandlerFunc s = ReadyHandler s"

definition HealthHandler :: Handler where
  "HealthHandler = (\<lambda>r.
     ([HeaderSet ''Content-Type'' ''text/plain; charset=utf-8'',
       WriteHeader StatusOK,
       Write ''ok''],
      Returned))"

subsection \<open>Reading a response off the writer calls\<close>

text \<open>
  The repository's tests read responses from an \<open>httptest.ResponseRecorder\<close>: \<open>Set\<close>
  and \<open>Del\<close> work on the header map under the canonical key, the first
  \<open>WriteHeader\<close> fixes the code, and a \<open>Write\<close> before any \<open>WriteHeader\<close> implies
  code 200.
\<close>

record ResponseRecorder =
  Code :: nat
  HeaderMap :: Header
  Body :: string
  wroteHeader :: bool

definition NewRecorder :: ResponseRecorder where
  "NewRecorder = \<lparr> Code = 200, HeaderMap = Map.empty, Body = [], wroteHeader = False \<rparr>"

fun record_call :: "ResponseRecorder \<Rightarrow> wcall \<Rightarrow> ResponseRecorder" where
  "record_call rw (HeaderSet k v) =
     rw\<lparr>HeaderMap := (HeaderMap rw)(CanonicalMIMEHeaderKey k \<mapsto> [v])\<rparr>"
| "record_call rw (HeaderDel k) =
     rw\<lparr>HeaderMap := (HeaderMap rw)(CanonicalMIMEHeaderKey k := None)\<rparr>"
| "record_call rw (WriteHeader c) =
     (if wroteHeader rw then rw else rw\<lparr>Code := c, wroteHeader := True\<rparr>)"
| "record_call rw (Write b) =
     (let rw' = (if wroteHeader rw then rw else rw\<lparr>Code := 200, wroteHeader := True\<rparr>)
      in rw'\<lparr>Body := Body rw' @ b\<rparr>)"

text \<open>The writer calls among the events of a request.\<close>

fun writer_calls :: "event list \<Rightarrow> wcall list" where
  "writer_calls [] = []"
| "writer_calls (OnWriter c # es) = c # writer_calls es"
| "writer_calls (e # es) = writer_calls es"

definition recorded :: "wcall list \<Rightarrow> ResponseRecorder" where
  "recorded cs = foldl record_call NewRecorder cs"

subsection \<open>Observations used in the statements\<close>

text \<open>The requests that reached the downstream handler, in order.\<close>

fun downstream_calls :: "event list \<Rightarrow> Request list" where
  "downstream_calls [] = []"
| "downstream_calls (CallNext r # es) = r # downstream_calls es"
| "downstream_calls (e # es) = downstream_calls es"

text \<open>The arguments of the notifier calls, in order.\<close>

fun notifier_calls :: "event list \<Rightarrow> (Request \<times> ShedReason) list" where
  "notifier_calls [] = []"
| "notifier_calls (CallOnShed r reason # es) = (r, reason) # notifier_calls es"
| "notifier_calls (e # es) = notifier_calls es"

text \<open>
  The answer of the decision policy of a Shedder for a request, as the middleware asks
  for it: \<open>s.shedDecider != nil && s.shedDecider(r)\<close>.
\<close>

definition shed_eligible :: "Shedder \<Rightarrow> Request \<Rightarrow> bool" where
  "shed_eligible s r = (case shedDecider s of None \<Rightarrow> False | Some d \<Rightarrow> d r)"

text \<open>
  \<open>Header.Values\<close>: all values stored under the canonical form of the key; a missing key
  gives the empty list.
\<close>

definition Header_Values :: "Header \<Rightarrow> string \<Rightarrow> string list" where
  "Header_Values h key = (case h (CanonicalMIMEHeaderKey key) of None \<Rightarrow> [] | Some vs \<Rightarrow> vs)"

text \<open>
  The specification's "the request carries that header with exactly that value", read
  with the lookup of \<open>Header.Get\<close>: the request has a value for the header, and the
  first one is the given string, byte for byte.
\<close>

definition carries_header :: "Request \<Rightarrow> string \<Rightarrow> string \<Rightarrow> bool" where
  "carries_header r name v =
     (case Header_Values (Header r) name of [] \<Rightarrow> False | v' # _ \<Rightarrow> v' = v)"

subsection \<open>Concrete requests, handlers and gates\<close>

definition plain_request :: Request where
  "plain_request = \<lparr> Path = ''/api/test'', Header = Map.empty \<rparr>"

definition low_request :: Request where
  "low_request = \<lparr> Path = ''/api/low'', Header = [''X-Priority'' \<mapsto> [''low'']] \<rparr>"

definition high_request :: Request where
  "high_request = \<lparr> Path = ''/api/high'', Header = [''X-Priority'' \<mapsto> [''high'']] \<rparr>"

definition shouting_request :: Request where
  "shouting_request = \<lparr> Path = ''/api/low'', Header = [''X-Priority'' \<mapsto> [''LOW'']] \<rparr>"

definition ok_handler :: Handler where
  "ok_handler = (\<lambda>r. ([WriteHeader 200], Returned))"

definition panic_handler :: Handler where
  "panic_handler = (\<lambda>r. ([], Panicked ''test panic''))"

definition low_priority :: ShedDecider where
  "low_priority = (\<lambda>r. Header_Get (Header r) ''X-Priority'' = ''low'')"

definition always_shed :: ShedDecider where
  "always_shed = (\<lambda>r. True)"

definition log_shed :: Notifier where
  "log_shed = (\<lambda>r reason. ())"

text \<open>A gate with hard limit 2, no soft limit and a notifier, holding \<open>c\<close> requests.\<close>

definition hard_gate :: "int64 \<Rightarrow> Shedder" where
  "hard_gate c =
     \<lparr> hardLimit = 2, softLimit = 0, inflight = c, shedDecider = None,
       onShed = Some log_shed \<rparr>"

text \<open>A gate with hard limit 10, soft limit 5 and a programmable decider.\<close>

definition soft_gate :: "int64 \<Rightarrow> Shedder" where
  "soft_gate c =
     \<lparr> hardLimit = 10, softLimit = 5, inflight = c, shedDecider = Some low_priority,
       onShed = None \<rparr>"

definition minimal_cfg :: Config where
  "minimal_cfg =
     \<lparr> HardLimit = 1, SoftLimit = - 5, ShedDecider = None, ShedHeader = None,
       OnShed = None \<rparr>"

definition both_cfg :: Config where
  "both_cfg =
     \<lparr> HardLimit = 100, SoftLimit = 80, ShedDecider = Some always_shed,
       ShedHeader = Some \<lparr> Name = ''X-Priority'', Value = ''low'' \<rparr>,
       OnShed = None \<rparr>"

definition both_gate :: Shedder where
  "both_gate =
     \<lparr> hardLimit = 100, softLimit = 80, inflight = 0, shedDecider = Some always_shed,
       onShed = None \<rparr>"

definition bare_cfg :: Config where
  "bare_cfg =
     \<lparr> HardLimit = 10, SoftLimit = 5, ShedDecider = None, ShedHeader = None,
       OnShed = None \<rparr>"

definition bare_gate :: Shedder where
  "bare_gate =
     \<lparr> hardLimit = 10, softLimit = 5, inflight = 0, shedDecider = None, onShed = None \<rparr>"

definition header_cfg :: "string \<Rightarrow> string \<Rightarrow> Config" where
  "header_cfg name v =
     \<lparr> HardLimit = 10, SoftLimit = 1, ShedDecider = None,
       ShedHeader = Some \<lparr> Name = name, Value = v \<rparr>, OnShed = None \<rparr>"

definition header_gate :: "string \<Rightarrow> string \<Rightarrow> Shedder" where
  "header_gate name v =
     \<lparr> hardLimit = 10, softLimit = 1, inflight = 0,
       shedDecider = Some (\<lambda>r. Header_Get (Header r) name = v), onShed = None \<rparr>"

section \<open>Properties\<close>

subsection \<open>Basic facts\<close>

lemma downstream_calls_writer [simp]: "downstream_calls (map OnWriter ws) = []"
  by (induction ws) simp_all

lemma notifier_calls_writer [simp]: "notifier_calls (map OnWriter ws) = []"
  by (induction ws) simp_all

lemma writer_calls_writer [simp]: "writer_calls (map OnWriter ws) = ws"
  by (induction ws) simp_all

text \<open>The writer calls of a rejection, written out.\<close>

lemma shed_events:
  "shed s r reason =
     (case onShed s of Some f \<Rightarrow> [CallOnShed r reason] | None \<Rightarrow> []) @
     map OnWriter
       [HeaderSet ''Retry-After'' ''1'',
        HeaderSet ''X-Shed-Reason'' (String reason),
        HeaderDel ''Content-Length'',
        HeaderSet ''Content-Type'' ''text/plain; charset=utf-8'',
        HeaderSet ''X-Content-Type-Options'' ''nosniff'',
        WriteHeader 503,
        Write ''Service Unavailable: load shedding active\<newline>'']"
  by (simp add: shed_def http_Error_def StatusServiceUnavailable_def
        split: option.splits unit.splits)

lemma shed_inflight [simp]: "shed (s\<lparr>inflight := c\<rparr>) r reason = shed s r reason"
  by (simp add: shed_def)

lemma downstream_calls_shed [simp]: "downstream_calls (shed s r reason) = []"
  by (simp add: shed_events split: option.splits)

lemma notifier_calls_shed:
  "notifier_calls (shed s r reason) =
     (case onShed s of Some f \<Rightarrow> [(r, reason)] | None \<Rightarrow> [])"
  by (simp add: shed_events split: option.splits)

lemma canonical_keys:
  "CanonicalMIMEHeaderKey ''Retry-After'' = ''Retry-After''"
  "CanonicalMIMEHeaderKey ''X-Shed-Reason'' = ''X-Shed-Reason''"
  "CanonicalMIMEHeaderKey ''Content-Length'' = ''Content-Length''"
  "CanonicalMIMEHeaderKey ''Content-Type'' = ''Content-Type''"
  "CanonicalMIMEHeaderKey ''X-Content-Type-Options'' = ''X-Content-Type-Options''"
  "CanonicalMIMEHeaderKey ''X-Priority'' = ''X-Priority''"
  "CanonicalMIMEHeaderKey ''x-priority'' = ''X-Priority''"
  by code_simp+

lemma recorded_shed:
  "recorded (writer_calls (shed s r reason)) =
     \<lparr> Code = 503,
       HeaderMap = [''Retry-After'' \<mapsto> [''1''],
                    ''X-Shed-Reason'' \<mapsto> [String reason],
                    ''Content-Type'' \<mapsto> [''text/plain; charset=utf-8''],
                    ''X-Content-Type-Options'' \<mapsto> [''nosniff'']],
       Body = ''Service Unavailable: load shedding active\<newline>'',
       wroteHeader = True \<rparr>"
  by (simp add: shed_events recorded_def NewRecorder_def canonical_keys fun_upd_twist
        split: option.splits)

text \<open>The three branches of the middleware, on the incremented count.\<close>

lemma Middleware_state: "fst (Middleware s next r) = s"
  by (simp add: Middleware_def increment_def decrement_def Let_def split: prod.splits)

lemma Middleware_hard:
  "sint (hardLimit s) < sint (inflight s + 1) \<Longrightarrow>
   snd (Middleware s next r) = (shed s r ShedReasonHardLimit, Returned)"
  by (simp add: Middleware_def increment_def Let_def word_sless_alt)

lemma Middleware_soft:
  "\<not> sint (hardLimit s) < sint (inflight s + 1) \<Longrightarrow> 0 < sint (softLimit s) \<Longrightarrow>
   sint (softLimit s) < sint (inflight s + 1) \<Longrightarrow> shed_eligible s r \<Longrightarrow>
   snd (Middleware s next r) = (shed s r ShedReasonSoftLimit, Returned)"
  by (simp add: Middleware_def increment_def Let_def word_sless_alt shed_eligible_def)

lemma Middleware_serve:
  "\<not> sint (hardLimit s) < sint (inflight s + 1) \<Longrightarrow>
   \<not> (0 < sint (softLimit s) \<and> sint (softLimit s) < sint (inflight s + 1)
      \<and> shed_eligible s r) \<Longrightarrow>
   snd (Middleware s next r) = (CallNext r # map OnWriter (fst (next r)), snd (next r))"
  by (auto simp add: Middleware_def increment_def Let_def word_sless_alt shed_eligible_def)

lemma Middleware_cases:
  "snd (Middleware s next r) =
     (if sint (hardLimit s) < sint (inflight s + 1)
      then (shed s r ShedReasonHardLimit, Returned)
      else if 0 < sint (softLimit s) \<and> sint (softLimit s) < sint (inflight s + 1)
              \<and> shed_eligible s r
      then (shed s r ShedReasonSoftLimit, Returned)
      else (CallNext r # map OnWriter (fst (next r)), snd (next r)))"
  using Middleware_hard [where s = s and r = r and ?next = "next"]
    Middleware_soft [where s = s and r = r and ?next = "next"]
    Middleware_serve [where s = s and r = r and ?next = "next"]
  by (cases "sint (hardLimit s) < sint (inflight s + 1)") auto

lemma New_Inr:
  "New cfg = Inr s \<Longrightarrow>
   s = \<lparr> hardLimit = HardLimit cfg, softLimit = SoftLimit cfg, inflight = 0,
         shedDecider =
           (case ShedDecider cfg of
              Some d \<Rightarrow> Some d
            | None \<Rightarrow>
                (case ShedHeader cfg of
                   Some hm \<Rightarrow> Some (\<lambda>r. Header_Get (Header r) (Name hm) = Value hm)
                 | None \<Rightarrow> None)),
         onShed = OnShed cfg \<rparr>"
  by (simp add: New_def split: if_splits)

lemma recorded_ReadyHandler_Code:
  "Code (recorded (fst (ReadyHandler s r))) =
     (if hardLimit s <s inflight s then 503 else 200)"
  by (simp add: ReadyHandler_def Inflight_def recorded_def NewRecorder_def Let_def
        StatusServiceUnavailable_def StatusOK_def)

lemma writer_calls_shed:
  "shed s r reason =
     (case onShed s of Some f \<Rightarrow> [CallOnShed r reason] | None \<Rightarrow> []) @
     map OnWriter (writer_calls (shed s r reason))"
  by (simp add: shed_events split: option.splits)

subsection \<open>The claims\<close>

text \<open>
  C1. Every request is decided against \<open>n\<close>, the value that \<open>increment\<close> returns
  (the count with this request in it). If \<open>n\<close> is above the hard limit the request is
  shed with reason HardLimit. Otherwise, if the soft limit is positive, \<open>n\<close> is above it
  and the configured decider answers true for the request, it is shed with reason
  SoftLimit. Otherwise the downstream handler is called, once, and its outcome is the
  outcome of the request. A shed request never reaches the downstream handler.
\<close>

theorem Middleware_admission_decision:
  "snd (Middleware s next r) =
     (if sint (hardLimit s) < sint (fst (increment s))
      then (shed s r ShedReasonHardLimit, Returned)
      else if 0 < sint (softLimit s) \<and> sint (softLimit s) < sint (fst (increment s))
              \<and> (\<exists>d. shedDecider s = Some d \<and> d r)
      then (shed s r ShedReasonSoftLimit, Returned)
      else (CallNext r # map OnWriter (fst (next r)), snd (next r)))
   \<and> fst (increment s) = inflight s + 1
   \<and> downstream_calls (shed s r reason) = []
   \<and> downstream_calls (CallNext r # map OnWriter (fst (next r))) = [r]"
proof -
  have n: "fst (increment s) = inflight s + 1"
    by (simp add: increment_def)
  have pol: "(\<exists>d. shedDecider s = Some d \<and> d r) = shed_eligible s r"
    by (simp add: shed_eligible_def split: option.splits)
  show ?thesis
    unfolding n pol using Middleware_cases [where s = s and r = r and ?next = "next"]
    by simp
qed

text \<open>
  The three branches on concrete gates: a third request at hard limit 2, a low-priority
  and a high-priority request as the sixth at soft limit 5, and a second request at hard
  limit 2.
\<close>

theorem Middleware_admission_decision_witness:
  "snd (Middleware (hard_gate 2) ok_handler plain_request) =
     (shed (hard_gate 2) plain_request ShedReasonHardLimit, Returned)
   \<and> snd (Middleware (soft_gate 5) ok_handler low_request) =
     (shed (soft_gate 5) low_request ShedReasonSoftLimit, Returned)
   \<and> snd (Middleware (soft_gate 5) ok_handler high_request) =
     ([CallNext high_request, OnWriter (WriteHeader 200)], Returned)
   \<and> snd (Middleware (hard_gate 1) ok_handler plain_request) =
     ([CallNext plain_request, OnWriter (WriteHeader 200)], Returned)"
  using Middleware_admission_decision
          [where s = "hard_gate 2" and r = plain_request and ?next = ok_handler]
        Middleware_admission_decision
          [where s = "soft_gate 5" and r = low_request and ?next = ok_handler]
        Middleware_admission_decision
          [where s = "soft_gate 5" and r = high_request and ?next = ok_handler]
        Middleware_admission_decision
          [where s = "hard_gate 1" and r = plain_request and ?next = ok_handler]
  by (simp add: hard_gate_def soft_gate_def increment_def ok_handler_def low_priority_def
        low_request_def high_request_def Header_Get_def canonical_keys)

text \<open>
  C2. On every exit path of the middleware (hard shed, soft shed, downstream handler
  returned, downstream handler panicked) the Shedder that comes back is the incremented
  one decremented once, so the in-flight counter has its value from before the request and
  nothing else in the Shedder has changed. The request ends by returning or with the
  outcome of the downstream handler, a panic included.
\<close>

theorem Middleware_restores_counter:
  "fst (Middleware s next r) = decrement (snd (increment s))
   \<and> inflight (fst (Middleware s next r)) = inflight s
   \<and> fst (Middleware s next r) = s
   \<and> (snd (snd (Middleware s next r)) = Returned
        \<or> snd (snd (Middleware s next r)) = snd (next r))"
proof -
  have a: "fst (Middleware s next r) = decrement (snd (increment s))"
    by (simp add: Middleware_def Let_def split: prod.splits)
  have b: "fst (Middleware s next r) = s"
    by (rule Middleware_state)
  have c: "snd (snd (Middleware s next r)) = Returned
        \<or> snd (snd (Middleware s next r)) = snd (next r)"
    by (simp add: Middleware_cases)
  from a b c show ?thesis by simp
qed

text \<open>
  A downstream handler that panics: the panic reaches the caller and the counter is back
  at 1. The shed paths and the served path restore it as well.
\<close>

theorem Middleware_restores_counter_witness:
  "Middleware (hard_gate 1) panic_handler plain_request =
     (hard_gate 1, [CallNext plain_request], Panicked ''test panic'')
   \<and> fst (Middleware (hard_gate 2) ok_handler plain_request) = hard_gate 2
   \<and> fst (Middleware (soft_gate 5) ok_handler low_request) = soft_gate 5
   \<and> fst (Middleware (hard_gate 0) ok_handler plain_request) = hard_gate 0"
proof -
  have "snd (Middleware (hard_gate 1) panic_handler plain_request) =
          ([CallNext plain_request], Panicked ''test panic'')"
    by (simp add: Middleware_cases hard_gate_def panic_handler_def)
  then show ?thesis
    using Middleware_restores_counter
            [where s = "hard_gate 1" and r = plain_request and ?next = panic_handler,
             THEN conjunct2, THEN conjunct2, THEN conjunct1]
          Middleware_restores_counter
            [where s = "hard_gate 2" and r = plain_request and ?next = ok_handler,
             THEN conjunct2, THEN conjunct2, THEN conjunct1]
          Middleware_restores_counter
            [where s = "soft_gate 5" and r = low_request and ?next = ok_handler,
             THEN conjunct2, THEN conjunct2, THEN conjunct1]
          Middleware_restores_counter
            [where s = "hard_gate 0" and r = plain_request and ?next = ok_handler,
             THEN conjunct2, THEN conjunct2, THEN conjunct1]
    by (simp add: prod_eq_iff)
qed

text \<open>
  C3. Whatever the count \<open>c\<close> is at the moment of the call, \<open>IsOverloaded\<close> is true
  exactly if \<open>c\<close> is strictly greater than the hard limit as a signed integer, it is
  false at the hard limit itself, and the readiness handler answers 503 exactly if
  \<open>IsOverloaded\<close> is true for that same count and 200 otherwise. The handler reads the
  counter in each call: its answer is a function of the Shedder's present state.
\<close>

theorem readiness_iff_not_overloaded:
  "IsOverloaded (s\<lparr>inflight := c\<rparr>) = (sint (hardLimit s) < sint c)
   \<and> \<not> IsOverloaded (s\<lparr>inflight := hardLimit s\<rparr>)
   \<and> Code (recorded (fst (ReadyHandler (s\<lparr>inflight := c\<rparr>) r))) =
       (if IsOverloaded (s\<lparr>inflight := c\<rparr>) then 503 else 200)
   \<and> snd (ReadyHandler (s\<lparr>inflight := c\<rparr>) r) = Returned"
proof -
  have ov: "IsOverloaded (s\<lparr>inflight := c\<rparr>) = (sint (hardLimit s) < sint c)"
    by (simp add: IsOverloaded_def word_sless_alt)
  have at: "\<not> IsOverloaded (s\<lparr>inflight := hardLimit s\<rparr>)"
    by (simp add: IsOverloaded_def)
  have code: "Code (recorded (fst (ReadyHandler (s\<lparr>inflight := c\<rparr>) r))) =
       (if IsOverloaded (s\<lparr>inflight := c\<rparr>) then 503 else 200)"
    by (simp add: recorded_ReadyHandler_Code IsOverloaded_def)
  have ret: "snd (ReadyHandler (s\<lparr>inflight := c\<rparr>) r) = Returned"
    by (simp add: ReadyHandler_def Let_def)
  from ov at code ret show ?thesis by blast
qed

text \<open>Hard limit 2: ready with two requests in flight, not ready with three.\<close>

theorem readiness_iff_not_overloaded_witness:
  "\<not> IsOverloaded (hard_gate 2)
   \<and> Code (recorded (fst (ReadyHandler (hard_gate 2) plain_request))) = 200
   \<and> IsOverloaded (hard_gate 3)
   \<and> Code (recorded (fst (ReadyHandler (hard_gate 3) plain_request))) = 503"
  using readiness_iff_not_overloaded
          [where s = "hard_gate 0" and c = 2 and r = plain_request]
        readiness_iff_not_overloaded
          [where s = "hard_gate 0" and c = 3 and r = plain_request]
  by (simp add: hard_gate_def)

text \<open>
  C4. \<open>IsSoftOverloaded\<close> is true exactly if the soft limit is positive, the count is
  strictly above it and the count is at most the hard limit. It is false for every count
  when the soft limit is zero or negative, it is false once the count is above the hard
  limit, and it is never true together with \<open>IsOverloaded\<close>.
\<close>

theorem IsSoftOverloaded_band:
  "IsSoftOverloaded s =
     (0 < sint (softLimit s) \<and> sint (softLimit s) < sint (inflight s)
      \<and> sint (inflight s) \<le> sint (hardLimit s))
   \<and> (sint (softLimit s) \<le> 0 \<longrightarrow> \<not> IsSoftOverloaded s)
   \<and> (sint (hardLimit s) < sint (inflight s) \<longrightarrow> \<not> IsSoftOverloaded s)
   \<and> \<not> (IsSoftOverloaded s \<and> IsOverloaded s)"
  by (auto simp add: IsSoftOverloaded_def IsOverloaded_def word_sless_alt word_sle_eq)

text \<open>
  Hard limit 10 and soft limit 5: not soft-overloaded at 5, soft-overloaded at 6 and at
  10, not at 11; and never with soft limit 0.
\<close>

theorem IsSoftOverloaded_band_witness:
  "\<not> IsSoftOverloaded (soft_gate 5) \<and> IsSoftOverloaded (soft_gate 6)
   \<and> IsSoftOverloaded (soft_gate 10) \<and> \<not> IsSoftOverloaded (soft_gate 11)
   \<and> sint (softLimit (hard_gate 2)) \<le> 0 \<and> \<not> IsSoftOverloaded (hard_gate 2)"
  using IsSoftOverloaded_band [of "soft_gate 5"] IsSoftOverloaded_band [of "soft_gate 6"]
        IsSoftOverloaded_band [of "soft_gate 10"] IsSoftOverloaded_band [of "soft_gate 11"]
        IsSoftOverloaded_band [of "hard_gate 2"]
  by (simp add: soft_gate_def hard_gate_def)

text \<open>
  C5. \<open>New\<close> panics exactly if the hard limit is zero or negative. For every hard limit
  from 1 on it returns a Shedder whose counter is zero and whose limits are the configured
  ones, whatever the soft limit is. Hard limit 1 is accepted and hard limit 0 is not.
\<close>

theorem New_fails_iff_hard_limit_not_positive:
  "(\<exists>msg. New cfg = Inl msg) = (sint (HardLimit cfg) \<le> 0)
   \<and> (\<exists>s. New cfg = Inr s) = (1 \<le> sint (HardLimit cfg))
   \<and> (\<forall>s. New cfg = Inr s \<longrightarrow>
         inflight s = 0 \<and> hardLimit s = HardLimit cfg \<and> softLimit s = SoftLimit cfg)
   \<and> (\<exists>s. New (cfg\<lparr>HardLimit := 1\<rparr>) = Inr s \<and> inflight s = 0)
   \<and> New (cfg\<lparr>HardLimit := 0\<rparr>) = Inl ''shedder: HardLimit must be > 0''"
  by (auto simp add: New_def word_sle_eq)

text \<open>
  Hard limit 1 with a negative soft limit is a valid configuration; hard limits 0 and -1
  panic.
\<close>

theorem New_fails_iff_hard_limit_not_positive_witness:
  "New minimal_cfg =
     Inr \<lparr> hardLimit = 1, softLimit = - 5, inflight = 0, shedDecider = None,
           onShed = None \<rparr>
   \<and> New (minimal_cfg\<lparr>HardLimit := 0\<rparr>) = Inl ''shedder: HardLimit must be > 0''
   \<and> New (minimal_cfg\<lparr>HardLimit := - 1\<rparr>) = Inl ''shedder: HardLimit must be > 0''"
proof -
  have ok: "New minimal_cfg =
     Inr \<lparr> hardLimit = 1, softLimit = - 5, inflight = 0, shedDecider = None,
           onShed = None \<rparr>"
    by (simp add: New_def minimal_cfg_def word_sle_eq)
  have neg: "sint (HardLimit (minimal_cfg\<lparr>HardLimit := - 1\<rparr>)) \<le> 0"
    by simp
  from ok neg show ?thesis
    using New_fails_iff_hard_limit_not_positive [of minimal_cfg]
          New_fails_iff_hard_limit_not_positive [of "minimal_cfg\<lparr>HardLimit := - 1\<rparr>"]
    by (auto simp add: New_def)
qed

text \<open>
  C6. When a programmable decider is configured, the Shedder that \<open>New\<close> builds holds
  that decider, and it is the same Shedder whatever header matcher is configured beside
  it. The policy's answer for every request is the decider's answer, and in the soft band
  the middleware sheds exactly the requests for which the decider answers true.
\<close>

theorem programmable_decider_takes_precedence:
  assumes "ShedDecider cfg = Some d" and "New cfg = Inr s"
  shows "shedDecider s = Some d
   \<and> New (cfg\<lparr>ShedHeader := hm\<rparr>) = Inr s
   \<and> shed_eligible (s\<lparr>inflight := c\<rparr>) r = d r
   \<and> (\<not> sint (hardLimit s) < sint (c + 1) \<longrightarrow> 0 < sint (softLimit s) \<longrightarrow>
        sint (softLimit s) < sint (c + 1) \<longrightarrow>
        snd (Middleware (s\<lparr>inflight := c\<rparr>) next r) =
          (if d r then (shed s r ShedReasonSoftLimit, Returned)
           else (CallNext r # map OnWriter (fst (next r)), snd (next r))))"
proof -
  have s: "shedDecider s = Some d"
    using assms by (auto dest: New_Inr)
  have indep: "New (cfg\<lparr>ShedHeader := hm\<rparr>) = Inr s"
    using assms by (auto simp add: New_def split: if_splits)
  have el: "shed_eligible (s\<lparr>inflight := c\<rparr>) r = d r"
    using s by (simp add: shed_eligible_def)
  have mw: "\<not> sint (hardLimit s) < sint (c + 1) \<longrightarrow> 0 < sint (softLimit s) \<longrightarrow>
        sint (softLimit s) < sint (c + 1) \<longrightarrow>
        snd (Middleware (s\<lparr>inflight := c\<rparr>) next r) =
          (if d r then (shed s r ShedReasonSoftLimit, Returned)
           else (CallNext r # map OnWriter (fst (next r)), snd (next r)))"
    using el by (simp add: Middleware_cases)
  from s indep el mw show ?thesis by blast
qed

text \<open>
  A decider that sheds everything beside a matcher for \<open>X-Priority: low\<close>: a request
  with \<open>X-Priority: high\<close>, which the matcher would let pass, is shed.
\<close>

theorem programmable_decider_takes_precedence_witness:
  "ShedDecider both_cfg = Some always_shed \<and> New both_cfg = Inr both_gate
   \<and> New (both_cfg\<lparr>ShedHeader := None\<rparr>) = Inr both_gate
   \<and> \<not> carries_header high_request ''X-Priority'' ''low''
   \<and> shed_eligible (both_gate\<lparr>inflight := 80\<rparr>) high_request
   \<and> snd (Middleware (both_gate\<lparr>inflight := 80\<rparr>) ok_handler high_request) =
       (shed both_gate high_request ShedReasonSoftLimit, Returned)"
proof -
  have a: "ShedDecider both_cfg = Some always_shed"
    by (simp add: both_cfg_def)
  have b: "New both_cfg = Inr both_gate"
    by (simp add: New_def both_cfg_def both_gate_def word_sle_eq)
  have c: "\<not> carries_header high_request ''X-Priority'' ''low''"
    by (simp add: carries_header_def Header_Values_def high_request_def canonical_keys)
  from a b c show ?thesis
    using programmable_decider_takes_precedence
            [OF a b, where hm = None and c = 80 and r = high_request and ?next = ok_handler]
    by (simp add: both_gate_def always_shed_def)
qed

text \<open>
  C7. With neither a decider nor a header matcher configured, the Shedder has no decider,
  and every request whose incremented count is at most the hard limit is served: the
  downstream handler is called once with it, its outcome is passed on and the counter is
  restored. That holds above a positive soft limit, too.
\<close>

theorem no_policy_never_soft_sheds:
  assumes "ShedDecider cfg = None" and "ShedHeader cfg = None" and "New cfg = Inr s"
    and "sint (c + 1) \<le> sint (hardLimit s)"
  shows "shedDecider s = None
   \<and> Middleware (s\<lparr>inflight := c\<rparr>) next r =
       (s\<lparr>inflight := c\<rparr>, CallNext r # map OnWriter (fst (next r)), snd (next r))
   \<and> downstream_calls (fst (snd (Middleware (s\<lparr>inflight := c\<rparr>) next r))) = [r]"
proof -
  have nil: "shedDecider s = None"
    using assms(1-3) by (auto dest: New_Inr)
  then have el: "\<not> shed_eligible (s\<lparr>inflight := c\<rparr>) r"
    by (simp add: shed_eligible_def)
  have run: "snd (Middleware (s\<lparr>inflight := c\<rparr>) next r) =
      (CallNext r # map OnWriter (fst (next r)), snd (next r))"
    using assms(4) el by (simp add: Middleware_serve)
  have st: "fst (Middleware (s\<lparr>inflight := c\<rparr>) next r) = s\<lparr>inflight := c\<rparr>"
    by (rule Middleware_state)
  from nil run st show ?thesis
    by (simp add: prod_eq_iff)
qed

text \<open>
  Hard limit 10, soft limit 5, no policy: the eighth request, although it carries
  \<open>X-Priority: low\<close>, reaches the downstream handler.
\<close>

theorem no_policy_never_soft_sheds_witness:
  "New bare_cfg = Inr bare_gate
   \<and> 0 < sint (softLimit bare_gate) \<and> sint (softLimit bare_gate) < sint (7 + 1 :: int64)
   \<and> sint (7 + 1 :: int64) \<le> sint (hardLimit bare_gate)
   \<and> Middleware (bare_gate\<lparr>inflight := 7\<rparr>) ok_handler low_request =
       (bare_gate\<lparr>inflight := 7\<rparr>,
        [CallNext low_request, OnWriter (WriteHeader 200)], Returned)"
proof -
  have a: "ShedDecider bare_cfg = None" and b: "ShedHeader bare_cfg = None"
    by (simp_all add: bare_cfg_def)
  have c: "New bare_cfg = Inr bare_gate"
    by (simp add: New_def bare_cfg_def bare_gate_def word_sle_eq)
  have d: "sint (7 + 1 :: int64) \<le> sint (hardLimit bare_gate)"
    by (simp add: bare_gate_def)
  from c d show ?thesis
    using no_policy_never_soft_sheds
            [OF a b c d, where r = low_request and ?next = ok_handler]
    by (simp add: bare_gate_def ok_handler_def)
qed

text \<open>
  C8. The writer calls of \<open>shed\<close>, read off a fresh recorder, give status code 503,
  \<open>Retry-After: 1\<close>, \<open>X-Shed-Reason\<close> with the string form of the reason
  (\<open>hard_limit\<close> and \<open>soft_limit\<close> for the two declared reasons), a plain-text content
  type and the fixed one-line body. Every request that the middleware does not pass to the
  downstream handler gets exactly this response, with \<open>hard_limit\<close> when the incremented
  count is above the hard limit and \<open>soft_limit\<close> otherwise.
\<close>

theorem rejection_response_contract:
  "Code (recorded (writer_calls (shed s r reason))) = 503
   \<and> Header_Get (HeaderMap (recorded (writer_calls (shed s r reason)))) ''Retry-After'' = ''1''
   \<and> Header_Get (HeaderMap (recorded (writer_calls (shed s r reason)))) ''X-Shed-Reason'' =
       String reason
   \<and> Header_Get (HeaderMap (recorded (writer_calls (shed s r reason)))) ''Content-Type'' =
       ''text/plain; charset=utf-8''
   \<and> Body (recorded (writer_calls (shed s r reason))) =
       ''Service Unavailable: load shedding active\<newline>''
   \<and> String ShedReasonHardLimit = ''hard_limit''
   \<and> String ShedReasonSoftLimit = ''soft_limit''
   \<and> (downstream_calls (fst (snd (Middleware s next r))) = [] \<longrightarrow>
        Code (recorded (writer_calls (fst (snd (Middleware s next r))))) = 503
        \<and> Header_Get (HeaderMap (recorded (writer_calls (fst (snd (Middleware s next r))))))
            ''Retry-After'' = ''1''
        \<and> Header_Get (HeaderMap (recorded (writer_calls (fst (snd (Middleware s next r))))))
            ''X-Shed-Reason'' =
            (if sint (hardLimit s) < sint (inflight s + 1) then ''hard_limit''
             else ''soft_limit'')
        \<and> Body (recorded (writer_calls (fst (snd (Middleware s next r))))) =
            ''Service Unavailable: load shedding active\<newline>'')"
proof -
  have resp: "Code (recorded (writer_calls (shed s r reason))) = 503
   \<and> Header_Get (HeaderMap (recorded (writer_calls (shed s r reason)))) ''Retry-After'' = ''1''
   \<and> Header_Get (HeaderMap (recorded (writer_calls (shed s r reason)))) ''X-Shed-Reason'' =
       String reason
   \<and> Header_Get (HeaderMap (recorded (writer_calls (shed s r reason)))) ''Content-Type'' =
       ''text/plain; charset=utf-8''
   \<and> Body (recorded (writer_calls (shed s r reason))) =
       ''Service Unavailable: load shedding active\<newline>''" for reason
    by (simp add: recorded_shed Header_Get_def canonical_keys)
  have str: "String ShedReasonHardLimit = ''hard_limit''"
    "String ShedReasonSoftLimit = ''soft_limit''"
    by (simp_all add: String_def ShedReasonHardLimit_def ShedReasonSoftLimit_def)
  have gate: "downstream_calls (fst (snd (Middleware s next r))) = [] \<longrightarrow>
        Code (recorded (writer_calls (fst (snd (Middleware s next r))))) = 503
        \<and> Header_Get (HeaderMap (recorded (writer_calls (fst (snd (Middleware s next r))))))
            ''Retry-After'' = ''1''
        \<and> Header_Get (HeaderMap (recorded (writer_calls (fst (snd (Middleware s next r))))))
            ''X-Shed-Reason'' =
            (if sint (hardLimit s) < sint (inflight s + 1) then ''hard_limit''
             else ''soft_limit'')
        \<and> Body (recorded (writer_calls (fst (snd (Middleware s next r))))) =
            ''Service Unavailable: load shedding active\<newline>''"
    using resp [of ShedReasonHardLimit] resp [of ShedReasonSoftLimit] str
    by (simp add: Middleware_cases)
  from resp [of reason] str gate show ?thesis
    by blast
qed

text \<open>A hard-limit shed and a soft-limit shed on the concrete gates.\<close>

theorem rejection_response_contract_witness:
  "downstream_calls (fst (snd (Middleware (hard_gate 2) ok_handler plain_request))) = []
   \<and> Code (recorded (writer_calls
         (fst (snd (Middleware (hard_gate 2) ok_handler plain_request))))) = 503
   \<and> Header_Get (HeaderMap (recorded (writer_calls
         (fst (snd (Middleware (hard_gate 2) ok_handler plain_request))))))
         ''X-Shed-Reason'' = ''hard_limit''
   \<and> downstream_calls (fst (snd (Middleware (soft_gate 5) ok_handler low_request))) = []
   \<and> Header_Get (HeaderMap (recorded (writer_calls
         (fst (snd (Middleware (soft_gate 5) ok_handler low_request))))))
         ''X-Shed-Reason'' = ''soft_limit''"
proof -
  have a: "downstream_calls (fst (snd (Middleware (hard_gate 2) ok_handler plain_request))) = []"
    by (simp add: Middleware_cases hard_gate_def)
  have b: "downstream_calls (fst (snd (Middleware (soft_gate 5) ok_handler low_request))) = []"
    by (simp add: Middleware_cases soft_gate_def shed_eligible_def low_priority_def
          low_request_def Header_Get_def canonical_keys)
  from a b show ?thesis
    using rejection_response_contract
            [where s = "hard_gate 2" and r = plain_request and ?next = ok_handler]
          rejection_response_contract
            [where s = "soft_gate 5" and r = low_request and ?next = ok_handler]
    by (simp add: hard_gate_def soft_gate_def)
qed

text \<open>
  C9. When a notifier is configured, the events of a shed are the notifier call with the
  request and the reason, followed by writer calls only: the notifier is called once,
  and before anything is written. Without a notifier there is no notifier call. For the
  middleware: a request that is not passed downstream has exactly that one notifier call
  in front of its response, with the reason of the decision, and a request that is passed
  downstream has no notifier call at all.
\<close>

theorem notifier_once_before_response:
  "(onShed s = Some f \<longrightarrow>
      shed s r reason = CallOnShed r reason # map OnWriter (writer_calls (shed s r reason))
      \<and> notifier_calls (shed s r reason) = [(r, reason)])
   \<and> (onShed s = None \<longrightarrow> notifier_calls (shed s r reason) = [])
   \<and> (onShed s = Some f \<longrightarrow> downstream_calls (fst (snd (Middleware s next r))) = [] \<longrightarrow>
        fst (snd (Middleware s next r)) =
          CallOnShed r (if sint (hardLimit s) < sint (inflight s + 1)
                        then ShedReasonHardLimit else ShedReasonSoftLimit)
          # map OnWriter (writer_calls (fst (snd (Middleware s next r))))
        \<and> notifier_calls (fst (snd (Middleware s next r))) =
          [(r, if sint (hardLimit s) < sint (inflight s + 1)
               then ShedReasonHardLimit else ShedReasonSoftLimit)])
   \<and> (downstream_calls (fst (snd (Middleware s next r))) \<noteq> [] \<longrightarrow>
        notifier_calls (fst (snd (Middleware s next r))) = []
        \<and> downstream_calls (fst (snd (Middleware s next r))) = [r])"
proof -
  have a: "onShed s = Some f \<longrightarrow>
      shed s r reason = CallOnShed r reason # map OnWriter (writer_calls (shed s r reason))
      \<and> notifier_calls (shed s r reason) = [(r, reason)]" for reason
    using writer_calls_shed [of s r reason] by (auto simp add: notifier_calls_shed)
  have b: "onShed s = None \<longrightarrow> notifier_calls (shed s r reason) = []"
    by (simp add: notifier_calls_shed)
  have c: "onShed s = Some f \<longrightarrow> downstream_calls (fst (snd (Middleware s next r))) = [] \<longrightarrow>
        fst (snd (Middleware s next r)) =
          CallOnShed r (if sint (hardLimit s) < sint (inflight s + 1)
                        then ShedReasonHardLimit else ShedReasonSoftLimit)
          # map OnWriter (writer_calls (fst (snd (Middleware s next r))))
        \<and> notifier_calls (fst (snd (Middleware s next r))) =
          [(r, if sint (hardLimit s) < sint (inflight s + 1)
               then ShedReasonHardLimit else ShedReasonSoftLimit)]"
    using a [of ShedReasonHardLimit] a [of ShedReasonSoftLimit]
    by (simp add: Middleware_cases)
  have d: "downstream_calls (fst (snd (Middleware s next r))) \<noteq> [] \<longrightarrow>
        notifier_calls (fst (snd (Middleware s next r))) = []
        \<and> downstream_calls (fst (snd (Middleware s next r))) = [r]"
    by (simp add: Middleware_cases)
  from a [of reason] b c d show ?thesis
    by blast
qed

text \<open>
  Hard limit 2 with a notifier: the third request is reported once with the hard-limit
  reason and not served; the second request is served and not reported.
\<close>

theorem notifier_once_before_response_witness:
  "onShed (hard_gate 2) = Some log_shed
   \<and> downstream_calls (fst (snd (Middleware (hard_gate 2) ok_handler plain_request))) = []
   \<and> notifier_calls (fst (snd (Middleware (hard_gate 2) ok_handler plain_request))) =
       [(plain_request, ShedReasonHardLimit)]
   \<and> downstream_calls (fst (snd (Middleware (hard_gate 1) ok_handler plain_request))) \<noteq> []
   \<and> notifier_calls (fst (snd (Middleware (hard_gate 1) ok_handler plain_request))) = []"
proof -
  have a: "onShed (hard_gate 2) = Some log_shed"
    by (simp add: hard_gate_def)
  have b: "downstream_calls (fst (snd (Middleware (hard_gate 2) ok_handler plain_request))) = []"
    by (simp add: Middleware_cases hard_gate_def)
  have c: "sint (hardLimit (hard_gate 2)) < sint (inflight (hard_gate 2) + 1)"
    by (simp add: hard_gate_def)
  have d: "downstream_calls (fst (snd (Middleware (hard_gate 1) ok_handler plain_request))) \<noteq> []"
    by (simp add: Middleware_cases hard_gate_def shed_eligible_def)
  from a b c d show ?thesis
    using notifier_once_before_response
            [where s = "hard_gate 2" and f = log_shed and r = plain_request
               and ?next = ok_handler, THEN conjunct2, THEN conjunct2, THEN conjunct1]
          notifier_once_before_response
            [where s = "hard_gate 1" and f = log_shed and r = plain_request
               and ?next = ok_handler, THEN conjunct2, THEN conjunct2, THEN conjunct2]
    by simp
qed

text \<open>
  C10 as stated fails for a matcher whose value is the empty string. \<open>Header.Get\<close>
  answers the empty string for a header that the request does not have, so a request
  without \<open>X-Priority\<close> is shed-eligible, and as the second request above soft limit 1
  it is shed with reason SoftLimit.
\<close>

theorem header_matcher_empty_value_counterexample:
  "ShedDecider (header_cfg ''X-Priority'' '''') = None
   \<and> New (header_cfg ''X-Priority'' '''') = Inr (header_gate ''X-Priority'' '''')
   \<and> Header_Values (Header plain_request) ''X-Priority'' = []
   \<and> \<not> carries_header plain_request ''X-Priority'' ''''
   \<and> shed_eligible (header_gate ''X-Priority'' '''') plain_request
   \<and> snd (Middleware (header_gate ''X-Priority'' ''''\<lparr>inflight := 1\<rparr>) ok_handler plain_request) =
       (shed (header_gate ''X-Priority'' '''') plain_request ShedReasonSoftLimit, Returned)"
proof -
  have a: "ShedDecider (header_cfg ''X-Priority'' '''') = None"
    by (simp add: header_cfg_def)
  have b: "New (header_cfg ''X-Priority'' '''') = Inr (header_gate ''X-Priority'' '''')"
    by (simp add: New_def header_cfg_def header_gate_def word_sle_eq)
  have c: "Header_Values (Header plain_request) ''X-Priority'' = []"
    by (simp add: Header_Values_def plain_request_def)
  have d: "\<not> carries_header plain_request ''X-Priority'' ''''"
    by (simp add: carries_header_def c)
  have e: "shed_eligible (header_gate ''X-Priority'' '''') plain_request"
    by (simp add: shed_eligible_def header_gate_def Header_Get_def plain_request_def)
  have f: "snd (Middleware (header_gate ''X-Priority'' ''''\<lparr>inflight := 1\<rparr>) ok_handler plain_request) =
       (shed (header_gate ''X-Priority'' '''') plain_request ShedReasonSoftLimit, Returned)"
    using e by (simp add: Middleware_cases shed_eligible_def header_gate_def shed_def)
  from a b c d e f show ?thesis by blast
qed

text \<open>
  C10, amended. With a header matcher and no programmable decider, the policy answers
  true for a request exactly if \<open>Header.Get\<close> of the configured name equals the
  configured value: the request's first value under the canonical form of the name is
  the configured value byte for byte, or the configured value is empty and the request
  has no value for the header. When the configured value is not empty, the policy is
  true exactly for the requests that carry the header with that value, and a request
  without the header is never shed-eligible.
\<close>

theorem header_matcher_policy:
  assumes "ShedDecider cfg = None" and "ShedHeader cfg = Some hm" and "New cfg = Inr s"
  shows "shed_eligible (s\<lparr>inflight := c\<rparr>) r = (Header_Get (Header r) (Name hm) = Value hm)
   \<and> shed_eligible (s\<lparr>inflight := c\<rparr>) r =
       (carries_header r (Name hm) (Value hm)
        \<or> (Value hm = [] \<and> Header_Values (Header r) (Name hm) = []))
   \<and> (Value hm \<noteq> [] \<longrightarrow>
        shed_eligible (s\<lparr>inflight := c\<rparr>) r = carries_header r (Name hm) (Value hm))
   \<and> (Value hm \<noteq> [] \<longrightarrow> Header_Values (Header r) (Name hm) = [] \<longrightarrow>
        \<not> shed_eligible (s\<lparr>inflight := c\<rparr>) r)"
proof -
  have dec: "shedDecider s = Some (\<lambda>r. Header_Get (Header r) (Name hm) = Value hm)"
    using assms by (auto dest: New_Inr)
  then have el: "shed_eligible (s\<lparr>inflight := c\<rparr>) r =
      (Header_Get (Header r) (Name hm) = Value hm)"
    by (simp add: shed_eligible_def)
  have get: "(Header_Get (Header r) (Name hm) = Value hm) =
       (carries_header r (Name hm) (Value hm)
        \<or> (Value hm = [] \<and> Header_Values (Header r) (Name hm) = []))"
    by (auto simp add: Header_Get_def carries_header_def Header_Values_def
          split: option.splits list.splits)
  have absent: "Header_Values (Header r) (Name hm) = [] \<longrightarrow>
      \<not> carries_header r (Name hm) (Value hm)"
    by (simp add: carries_header_def)
  from el get absent show ?thesis
    by auto
qed

text \<open>
  A matcher for \<open>x-priority: low\<close>: the name is looked up in canonical form, so a
  request with \<open>X-Priority: low\<close> matches; \<open>LOW\<close>, \<open>high\<close> and a missing header do
  not.
\<close>

theorem header_matcher_policy_witness:
  "New (header_cfg ''x-priority'' ''low'') = Inr (header_gate ''x-priority'' ''low'')
   \<and> shed_eligible (header_gate ''x-priority'' ''low''\<lparr>inflight := 1\<rparr>) low_request
   \<and> carries_header low_request ''x-priority'' ''low''
   \<and> \<not> shed_eligible (header_gate ''x-priority'' ''low''\<lparr>inflight := 1\<rparr>) shouting_request
   \<and> \<not> shed_eligible (header_gate ''x-priority'' ''low''\<lparr>inflight := 1\<rparr>) high_request
   \<and> Header_Values (Header plain_request) ''x-priority'' = []
   \<and> \<not> shed_eligible (header_gate ''x-priority'' ''low''\<lparr>inflight := 1\<rparr>) plain_request"
proof -
  have a: "ShedDecider (header_cfg ''x-priority'' ''low'') = None"
    and b: "ShedHeader (header_cfg ''x-priority'' ''low'') =
              Some \<lparr> Name = ''x-priority'', Value = ''low'' \<rparr>"
    by (simp_all add: header_cfg_def)
  have c: "New (header_cfg ''x-priority'' ''low'') = Inr (header_gate ''x-priority'' ''low'')"
    by (simp add: New_def header_cfg_def header_gate_def word_sle_eq)
  have d: "carries_header low_request ''x-priority'' ''low''"
    "\<not> carries_header shouting_request ''x-priority'' ''low''"
    "\<not> carries_header high_request ''x-priority'' ''low''"
    "Header_Values (Header plain_request) ''x-priority'' = []"
    by (simp_all add: carries_header_def Header_Values_def canonical_keys low_request_def
          shouting_request_def high_request_def plain_request_def)
  from c d show ?thesis
    using header_matcher_policy
            [OF a b c, where c = 1 and r = low_request,
             THEN conjunct2, THEN conjunct2, THEN conjunct1]
          header_matcher_policy
            [OF a b c, where c = 1 and r = shouting_request,
             THEN conjunct2, THEN conjunct2, THEN conjunct1]
          header_matcher_policy
            [OF a b c, where c = 1 and r = high_request,
             THEN conjunct2, THEN conjunct2, THEN conjunct1]
          header_matcher_policy
            [OF a b c, where c = 1 and r = plain_request,
             THEN conjunct2, THEN conjunct2, THEN conjunct2]
    by simp
qed

end
